theory Spec2Isabelle
  imports Complex_Main
begin

section \<open>Reading Buddy: the progress and level-progression engine\<close>

text \<open>
  The engine lives in three places of the repository: the hook \<open>useLearningSession\<close>
  (session accumulator, session finalization, daily goals, streak, level check), the hook
  \<open>useLevelProgression\<close> in \<open>hooks/useProfile.ts\<close> (a second level check over the constant
  \<open>LEVEL_REQUIREMENTS\<close>), and the two PL/pgSQL functions \<open>update_user_stats\<close> and
  \<open>update_word_progress\<close> of the first migration, together with the table declarations
  they write to.

  Conventions of the embedding.
  \<^item> A table with a primary key or a \<open>UNIQUE\<close> constraint is a map from the key (or, for
    \<open>word_progress\<close>, whose rows are counted, a list of key-row pairs); an append-only
    table is a list of rows. Columns that no rule reads (\<open>email\<close>, \<open>created_at\<close>,
    \<open>updated_at\<close>, \<open>last_practiced\<close>, generated ids) are left out.
  \<^item> The hooks' \<open>user\<close> and \<open>settings\<close> are parameters of option type; the clock
    (\<open>Date.now()\<close>) and the calendar date are parameters as well.
  \<^item> A JavaScript number holding a count is an \<open>int\<close>; one holding a percentage is a
    \<open>rat\<close>, so binary rounding of doubles is idealised away. Division is the
    exception: it returns a \<open>number\<close> that can be \<open>NaN\<close> or infinite.
  \<^item> An awaited Supabase call does not throw: it returns an error object, which the hooks
    drop unless they test it. A rejected statement therefore leaves the database as it was.
    The row-level security policies of the migration admit every statement the hooks send
    for the signed-in user, and the network is taken to deliver them.
  \<^item> The 32-bit range of \<open>integer\<close> is checked where the SQL functions add integers; the
    values the hooks compute themselves are taken to fit the columns they are written to.
  \<^item> Emoji of the source are written as ASCII names between colons.
\<close>

subsection \<open>JavaScript numbers and strings\<close>

datatype number = Num rat | NaN | Infinity | NegInfinity

text \<open>\<open>a / b\<close> on finite operands (signed zeros are not distinguished).\<close>

definition divide_js :: "rat \<Rightarrow> rat \<Rightarrow> number" where
  "divide_js a b =
     (if b = 0 then (if a = 0 then NaN else if 0 < a then Infinity else NegInfinity)
      else Num (a / b))"

text \<open>\<open>x * c\<close> for a finite right operand \<open>c\<close>.\<close>

fun times_js :: "number \<Rightarrow> rat \<Rightarrow> number" where
  "times_js (Num a) c = Num (a * c)"
| "times_js NaN c = NaN"
| "times_js Infinity c = (if c = 0 then NaN else if 0 < c then Infinity else NegInfinity)"
| "times_js NegInfinity c = (if c = 0 then NaN else if 0 < c then NegInfinity else Infinity)"

text \<open>\<open>v || d\<close> on a number: zero is falsy.\<close>

definition or_default :: "int \<Rightarrow> int \<Rightarrow> int" where
  "or_default v d = (if v = 0 then d else v)"

text \<open>\<open>word.toLowerCase()\<close>, on the ASCII letters.\<close>

definition toLowerCase :: "string \<Rightarrow> string" where
  "toLowerCase s =
     map (\<lambda>c. if (65::nat) \<le> of_char c \<and> of_char c \<le> (90::nat)
               then char_of (of_char c + (32::nat)) else c) s"

text \<open>The decimal text of an integer, as a template literal prints it.\<close>

fun digits :: "nat \<Rightarrow> string" where
  "digits n =
     (if n < 10 then [''0123456789'' ! n]
      else digits (n div 10) @ [''0123456789'' ! (n mod 10)])"

definition toString :: "int \<Rightarrow> string" where
  "toString n = (if n < 0 then CHR ''-'' # digits (nat (- n)) else digits (nat n))"

subsection \<open>The schema\<close>

type_synonym uuid = string
type_synonym date = string

datatype session_type = chat | practice
datatype difficulty = easy | medium | hard
datatype goal_type = words_goal | time_goal | accuracy_goal

text \<open>Table \<open>profiles\<close>, keyed by \<open>id\<close>.\<close>

record profiles_row =
  level :: int
  total_words_learned :: int
  total_practice_time :: int
  accuracy_rate :: rat
  current_streak :: int
  longest_streak :: int

text \<open>Table \<open>word_progress\<close>, \<open>UNIQUE(user_id, word)\<close>; the key is kept beside the row.\<close>

record word_progress_row =
  difficulty :: difficulty
  times_practiced :: int
  times_correct :: int
  mastery_level :: int

text \<open>Table \<open>achievements\<close>, append-only.\<close>

record achievements_row =
  user_id :: uuid
  achievement_type :: string
  title :: string
  description :: string
  icon :: string

text \<open>Table \<open>daily_goals\<close>, \<open>UNIQUE(user_id, goal_type, goal_date)\<close>.\<close>

record daily_goals_row =
  target_value :: int
  current_value :: int
  completed :: bool

text \<open>
  Table \<open>learning_sessions\<close>. The columns \<open>user_id\<close> and \<open>accuracy_rate\<close> carry a
  prefix here, since \<open>profiles\<close> and \<open>achievements\<close> have columns of the same names.
\<close>

record learning_sessions_row =
  session_user_id :: uuid
  session_type :: session_type
  words_practiced :: "string list"
  correct_pronunciations :: int
  total_attempts :: int
  session_duration :: int
  session_accuracy_rate :: rat

record database =
  profiles :: "uuid \<rightharpoonup> profiles_row"
  word_progress :: "((uuid \<times> string) \<times> word_progress_row) list"
  achievements :: "achievements_row list"
  daily_goals :: "(uuid \<times> goal_type \<times> date) \<rightharpoonup> daily_goals_row"
  learning_sessions :: "learning_sessions_row list"

text \<open>The row of \<open>app_settings\<close> that the hook \<open>useSettings\<close> holds.\<close>

record app_settings =
  daily_word_goal :: int

subsection \<open>Column types of PostgreSQL\<close>

datatype pg_error = division_by_zero | integer_out_of_range | numeric_field_overflow

text \<open>\<open>integer\<close>: arithmetic that leaves the 32-bit range raises, it does not wrap.\<close>

definition int4_ok :: "int \<Rightarrow> bool" where
  "int4_ok v \<longleftrightarrow> - 2147483648 \<le> v \<and> v \<le> 2147483647"

text \<open>
  \<open>numeric(5,2)\<close>: a value assigned to the column is rounded to two fractional digits,
  ties away from zero, and rejected when three digits before the point do not hold it.
\<close>

definition round_half_away :: "rat \<Rightarrow> int" where
  "round_half_away x = (if 0 \<le> x then \<lfloor>x + 1 / 2\<rfloor> else - \<lfloor>- x + 1 / 2\<rfloor>)"

definition numeric_5_2 :: "rat \<Rightarrow> pg_error + rat" where
  "numeric_5_2 x =
     (let r = of_int (round_half_away (x * 100)) / 100
      in if \<bar>r\<bar> < 1000 then Inr r else Inl numeric_field_overflow)"

subsection \<open>The SQL functions\<close>

text \<open>
  \<open>update_user_stats\<close>: one \<open>UPDATE profiles ... WHERE id = p_user_id\<close>. No row with that id:
  nothing is updated and nothing is raised. The sums are \<open>integer\<close> sums; the average is a
  \<open>numeric\<close> expression (taken exactly here) assigned to a \<open>numeric(5,2)\<close> column.
\<close>

definition update_user_stats ::
  "database \<Rightarrow> uuid \<Rightarrow> int \<Rightarrow> int \<Rightarrow> rat \<Rightarrow> pg_error + database" where
  "update_user_stats db p_user_id p_words_learned p_practice_time p_accuracy =
     (case profiles db p_user_id of
        None \<Rightarrow> Inr db
      | Some row \<Rightarrow>
          if \<not> int4_ok (total_words_learned row + p_words_learned)
             \<or> \<not> int4_ok (total_practice_time row + p_practice_time)
          then Inl integer_out_of_range
          else (case numeric_5_2 ((accuracy_rate row + p_accuracy) / 2) of
                  Inl e \<Rightarrow> Inl e
                | Inr rate \<Rightarrow>
                    Inr (db\<lparr>profiles := (profiles db)(p_user_id \<mapsto> row
                           \<lparr>total_words_learned := total_words_learned row + p_words_learned,
                            total_practice_time := total_practice_time row + p_practice_time,
                            accuracy_rate := rate\<rparr>)\<rparr>)))"

text \<open>
  The \<open>CASE\<close> of \<open>update_word_progress\<close>, on the counts after the increment. The source
  divides in \<open>float\<close> and compares with the literals 0.9, 0.7 and 0.5; on 32-bit counts a
  quotient of two integers is never close enough to one of them for the rounding of the
  double to change the comparison, so the comparison of the exact quotient is the same.
\<close>

definition mastery_case :: "int \<Rightarrow> int \<Rightarrow> pg_error + int" where
  "mastery_case correct practiced =
     (if practiced = 0 then Inl division_by_zero
      else Inr (if of_int correct / of_int practiced \<ge> (9 / 10 :: rat) \<and> practiced \<ge> 5 then 100
                else if of_int correct / of_int practiced \<ge> (7 / 10 :: rat) \<and> practiced \<ge> 3 then 75
                else if of_int correct / of_int practiced \<ge> (1 / 2 :: rat) then 50
                else 25))"

text \<open>The \<open>DO UPDATE SET\<close> list, applied to the conflicting row.\<close>

definition on_conflict_update :: "bool \<Rightarrow> word_progress_row \<Rightarrow> pg_error + word_progress_row" where
  "on_conflict_update p_correct row =
     (let practiced = times_practiced row + 1;
          correct = times_correct row + (if p_correct then 1 else 0)
      in if \<not> int4_ok practiced \<or> \<not> int4_ok correct then Inl integer_out_of_range
         else (case mastery_case correct practiced of
                 Inl e \<Rightarrow> Inl e
               | Inr tier \<Rightarrow>
                   Inr (row\<lparr>times_practiced := practiced, times_correct := correct,
                            mastery_level := tier\<rparr>)))"

text \<open>
  \<open>update_word_progress\<close>: \<open>INSERT ... ON CONFLICT (user_id, word) DO UPDATE\<close>. The column
  list of the \<open>INSERT\<close> has no \<open>mastery_level\<close>, so a new row takes the column's
  \<open>DEFAULT 0\<close>; the \<open>DO UPDATE\<close> leaves \<open>difficulty\<close> as it was.
\<close>

definition update_word_progress ::
  "database \<Rightarrow> uuid \<Rightarrow> string \<Rightarrow> difficulty \<Rightarrow> bool \<Rightarrow> pg_error + database" where
  "update_word_progress db p_user_id p_word p_difficulty p_correct =
     (case map_of (word_progress db) (p_user_id, p_word) of
        None \<Rightarrow>
          Inr (db\<lparr>word_progress := word_progress db @
                 [((p_user_id, p_word),
                   \<lparr>difficulty = p_difficulty, times_practiced = 1,
                    times_correct = (if p_correct then 1 else 0), mastery_level = 0\<rparr>)]\<rparr>)
      | Some row \<Rightarrow>
          (case on_conflict_update p_correct row of
             Inl e \<Rightarrow> Inl e
           | Inr row' \<Rightarrow>
               Inr (db\<lparr>word_progress :=
                      map (\<lambda>(k, r). if k = (p_user_id, p_word) then (k, row') else (k, r))
                        (word_progress db)\<rparr>)))"

subsection \<open>The hook \<open>useLearningSession\<close>: the session accumulator\<close>

record session =
  sessionType :: session_type
  startTime :: int
  wordsPracticed :: "string list"
  correctPronunciations :: int
  totalAttempts :: int

definition startSession :: "session_type \<Rightarrow> int \<Rightarrow> session" where
  "startSession ty now =
     \<lparr>sessionType = ty, startTime = now, wordsPracticed = [],
      correctPronunciations = 0, totalAttempts = 0\<rparr>"

definition updateWordProgress ::
  "database \<Rightarrow> uuid option \<Rightarrow> string \<Rightarrow> difficulty \<Rightarrow> bool \<Rightarrow> database" where
  "updateWordProgress db user word' difficulty' isCorrect =
     (case user of
        None \<Rightarrow> db
      | Some u \<Rightarrow>
          (case update_word_progress db u (toLowerCase word') difficulty' isCorrect of
             Inl e \<Rightarrow> db
           | Inr db' \<Rightarrow> db'))"

text \<open>
  \<open>addWordToSession\<close> returns the updated accumulator and, with a user, has sent the
  attempt to \<open>update_word_progress\<close>.
\<close>

definition addWordToSession ::
  "database \<Rightarrow> uuid option \<Rightarrow> session \<Rightarrow> string \<Rightarrow> bool \<Rightarrow> difficulty \<Rightarrow> session \<times> database" where
  "addWordToSession db user s word' isCorrect difficulty' =
     (s\<lparr>wordsPracticed := wordsPracticed s @ [word'],
        totalAttempts := totalAttempts s + 1,
        correctPronunciations := correctPronunciations s + (if isCorrect then 1 else 0)\<rparr>,
      (case user of None \<Rightarrow> db | Some u \<Rightarrow> updateWordProgress db user word' difficulty' isCorrect))"

text \<open>The two locals of \<open>endSession\<close>.\<close>

definition sessionDuration :: "int \<Rightarrow> session \<Rightarrow> int" where
  "sessionDuration now s = (now - startTime s) div 1000"

definition accuracyRate :: "session \<Rightarrow> number" where
  "accuracyRate s =
     (if totalAttempts s > 0
      then times_js (divide_js (of_int (correctPronunciations s)) (of_int (totalAttempts s))) 100
      else Num 0)"

subsection \<open>Aggregate stats, daily goals and streak\<close>

definition updateUserStats :: "database \<Rightarrow> uuid option \<Rightarrow> int \<Rightarrow> int \<Rightarrow> rat \<Rightarrow> database" where
  "updateUserStats db user wordsLearned practiceTime accuracy' =
     (case user of
        None \<Rightarrow> db
      | Some u \<Rightarrow>
          (case update_user_stats db u wordsLearned practiceTime accuracy' of
             Inl e \<Rightarrow> db
           | Inr db' \<Rightarrow> db'))"

text \<open>\<open>settings?.daily_word_goal || 10\<close>.\<close>

definition word_goal_or_10 :: "app_settings option \<Rightarrow> int" where
  "word_goal_or_10 settings =
     (case settings of None \<Rightarrow> 10 | Some st \<Rightarrow> or_default (daily_word_goal st) 10)"

text \<open>\<open>.update({current_value, completed, updated_at})\<close> on the row of one key.\<close>

definition update_goal ::
  "database \<Rightarrow> uuid \<times> goal_type \<times> date \<Rightarrow> int \<Rightarrow> bool \<Rightarrow> database" where
  "update_goal db key newValue done =
     (case daily_goals db key of
        None \<Rightarrow> db
      | Some row \<Rightarrow>
          db\<lparr>daily_goals := (daily_goals db)(key \<mapsto>
                row\<lparr>current_value := newValue, completed := done\<rparr>)\<rparr>)"

text \<open>
  \<open>updateDailyGoals\<close> reads today's rows of the user once (\<open>currentGoals\<close>), updates each
  of the three that it found, and inserts all three when it found none.
\<close>

definition updateDailyGoals ::
  "database \<Rightarrow> uuid option \<Rightarrow> app_settings option \<Rightarrow> date \<Rightarrow> int \<Rightarrow> int \<Rightarrow> rat \<Rightarrow> database" where
  "updateDailyGoals db user settings today wordsLearned practiceTime accuracy' =
     (case user of
        None \<Rightarrow> db
      | Some u \<Rightarrow>
          (let currentGoals = (\<lambda>t. daily_goals db (u, t, today));
               db1 = (case currentGoals words_goal of
                        None \<Rightarrow> db
                      | Some wordsGoal \<Rightarrow>
                          (let newValue = current_value wordsGoal + wordsLearned
                           in update_goal db (u, words_goal, today) newValue
                                (newValue \<ge> target_value wordsGoal)));
               db2 = (case currentGoals time_goal of
                        None \<Rightarrow> db1
                      | Some timeGoal \<Rightarrow>
                          (let newValue = current_value timeGoal + practiceTime div 60
                           in update_goal db1 (u, time_goal, today) newValue
                                (newValue \<ge> target_value timeGoal)));
               db3 = (case currentGoals accuracy_goal of
                        None \<Rightarrow> db2
                      | Some accuracyGoal \<Rightarrow>
                          (let newValue = max (current_value accuracyGoal) \<lfloor>accuracy'\<rfloor>
                           in update_goal db2 (u, accuracy_goal, today) newValue
                                (newValue \<ge> target_value accuracyGoal)))
           in if currentGoals words_goal = None \<and> currentGoals time_goal = None
                 \<and> currentGoals accuracy_goal = None
              then db3\<lparr>daily_goals := (daily_goals db3)
                     ((u, words_goal, today) \<mapsto>
                        \<lparr>target_value = word_goal_or_10 settings, current_value = wordsLearned,
                         completed = (wordsLearned \<ge> word_goal_or_10 settings)\<rparr>,
                      (u, time_goal, today) \<mapsto>
                        \<lparr>target_value = 30, current_value = practiceTime div 60,
                         completed = (practiceTime div 60 \<ge> 30)\<rparr>,
                      (u, accuracy_goal, today) \<mapsto>
                        \<lparr>target_value = 80, current_value = \<lfloor>accuracy'\<rfloor>,
                         completed = (\<lfloor>accuracy'\<rfloor> \<ge> 80)\<rparr>)\<rparr>
              else db3))"

text \<open>
  \<open>updateStreak\<close> adds the session's words to the stored value of today's words goal and
  compares the sum with the configured daily goal.
\<close>

definition updateStreak ::
  "database \<Rightarrow> uuid option \<Rightarrow> app_settings option \<Rightarrow> date \<Rightarrow> int \<Rightarrow> database" where
  "updateStreak db user settings today wordsLearned =
     (case (user, settings) of
        (Some u, Some st) \<Rightarrow>
          (let dailyGoal = or_default (daily_word_goal st) 10;
               totalWordsToday =
                 (case daily_goals db (u, words_goal, today) of
                    None \<Rightarrow> 0
                  | Some todayGoal \<Rightarrow> or_default (current_value todayGoal) 0) + wordsLearned
           in if totalWordsToday \<ge> dailyGoal
              then (case profiles db u of
                      None \<Rightarrow> db
                    | Some profile \<Rightarrow>
                        (let newStreak = current_streak profile + 1;
                             newLongestStreak = max newStreak (longest_streak profile)
                         in db\<lparr>profiles := (profiles db)(u \<mapsto>
                                profile\<lparr>current_streak := newStreak,
                                        longest_streak := newLongestStreak\<rparr>)\<rparr>))
              else db)
      | _ \<Rightarrow> db)"

subsection \<open>Level progression in \<open>useLearningSession\<close>\<close>

text \<open>
  An entry of the local array \<open>levelRequirements\<close>. Its field \<open>level\<close> is \<open>req_level\<close>
  here, the name \<open>level\<close> being the column of \<open>profiles\<close>.
\<close>

record requirement =
  req_level :: int
  words :: int
  accuracy :: rat
  streak :: int
  time :: int

definition levelRequirements :: "requirement list" where
  "levelRequirements =
     [\<lparr>req_level = 1, words = 0, accuracy = 0, streak = 0, time = 0\<rparr>,
      \<lparr>req_level = 2, words = 25, accuracy = 60, streak = 3, time = 30\<rparr>,
      \<lparr>req_level = 3, words = 75, accuracy = 70, streak = 7, time = 90\<rparr>,
      \<lparr>req_level = 4, words = 150, accuracy = 75, streak = 14, time = 180\<rparr>,
      \<lparr>req_level = 5, words = 250, accuracy = 80, streak = 21, time = 300\<rparr>,
      \<lparr>req_level = 6, words = 400, accuracy = 85, streak = 30, time = 480\<rparr>,
      \<lparr>req_level = 7, words = 600, accuracy = 88, streak = 45, time = 720\<rparr>,
      \<lparr>req_level = 8, words = 850, accuracy = 90, streak = 60, time = 1000\<rparr>,
      \<lparr>req_level = 9, words = 1200, accuracy = 92, streak = 90, time = 1440\<rparr>,
      \<lparr>req_level = 10, words = 1500, accuracy = 95, streak = 120, time = 2000\<rparr>]"

text \<open>
  The metrics of the walk, in the order used throughout: \<open>masteredWords\<close> (\<open>mw\<close>),
  \<open>profile.accuracy_rate\<close> (\<open>rate\<close>), \<open>profile.current_streak\<close> (\<open>strk\<close>) and
  \<open>practiceTimeMinutes\<close> (\<open>pt\<close>).
\<close>

definition meetsRequirements :: "int \<Rightarrow> rat \<Rightarrow> int \<Rightarrow> int \<Rightarrow> requirement \<Rightarrow> bool" where
  "meetsRequirements mw rate strk pt r \<longleftrightarrow>
     mw \<ge> words r \<and> rate \<ge> accuracy r \<and> strk \<ge> streak r \<and> pt \<ge> time r"

text \<open>The \<open>for ... of\<close> loop with its \<open>break\<close>; the last argument is \<open>qualifiedLevel\<close> so far.\<close>

fun qualifiedLevel_loop :: "int \<Rightarrow> rat \<Rightarrow> int \<Rightarrow> int \<Rightarrow> requirement list \<Rightarrow> int \<Rightarrow> int" where
  "qualifiedLevel_loop mw rate strk pt [] q = q"
| "qualifiedLevel_loop mw rate strk pt (r # rest) q =
     (if meetsRequirements mw rate strk pt r
      then qualifiedLevel_loop mw rate strk pt rest (req_level r)
      else q)"

definition qualifiedLevel :: "int \<Rightarrow> rat \<Rightarrow> int \<Rightarrow> int \<Rightarrow> int" where
  "qualifiedLevel mw rate strk pt = qualifiedLevel_loop mw rate strk pt levelRequirements 1"

text \<open>The number of rows \<open>.eq('user_id', user.id).gte('mastery_level', 75)\<close> selects.\<close>

definition masteredWords :: "database \<Rightarrow> uuid \<Rightarrow> int" where
  "masteredWords db u =
     int (length (filter (\<lambda>(k, r). fst k = u \<and> mastery_level r \<ge> 75) (word_progress db)))"

definition icons :: "string list" where
  "icons = ['':seedling:'', '':herb:'', '':deciduous_tree:'', '':star:'', '':glowing_star:'',
            '':dizzy:'', '':trophy:'', '':crown:'', '':gem:'', '':fire:'']"

text \<open>\<open>icons[Math.min(level - 1, icons.length - 1)]\<close>; a negative index reads \<open>undefined\<close>.\<close>

definition getLevelIcon :: "int \<Rightarrow> string option" where
  "getLevelIcon lv =
     (let i = min (lv - 1) (int (length icons) - 1)
      in if 0 \<le> i then Some (icons ! nat i) else None)"

text \<open>An insert into \<open>achievements\<close>; every column is \<open>NOT NULL\<close>, so no icon, no row.\<close>

definition insert_achievement ::
  "database \<Rightarrow> uuid \<Rightarrow> string \<Rightarrow> string \<Rightarrow> string \<Rightarrow> string option \<Rightarrow> database" where
  "insert_achievement db u ty ttl descr ic =
     (case ic of
        None \<Rightarrow> db
      | Some i \<Rightarrow>
          db\<lparr>achievements := achievements db @
               [\<lparr>user_id = u, achievement_type = ty, title = ttl, description = descr,
                 icon = i\<rparr>]\<rparr>)"

definition level_up_title :: "int \<Rightarrow> string" where
  "level_up_title lv = ''Level '' @ toString lv @ '' Reached!''"

definition level_up_description :: "int \<Rightarrow> string" where
  "level_up_description lv =
     ''Congratulations! You've advanced to Level '' @ toString lv
       @ ''. Keep up the amazing work!''"

text \<open>The two milestone inserts, shared by both hooks word for word.\<close>

definition milestone_achievements :: "database \<Rightarrow> uuid \<Rightarrow> int \<Rightarrow> database" where
  "milestone_achievements db u lv =
     (if lv = 5
      then insert_achievement db u ''milestone'' ''Reading Star :star:''
             ''You've reached Level 5! You're becoming a reading expert!'' (Some '':star:'')
      else if lv = 10
      then insert_achievement db u ''milestone'' ''Reading Buddy Master :trophy:''
             ''Amazing! You've reached the highest level! You're a true reading champion!''
             (Some '':trophy:'')
      else db)"

text \<open>
  \<open>checkLevelProgression(wordsLearned, sessionAccuracy)\<close> of \<open>useLearningSession\<close>; it
  reads neither of its parameters.
\<close>

definition checkLevelProgression ::
  "database \<Rightarrow> uuid option \<Rightarrow> int \<Rightarrow> rat \<Rightarrow> database" where
  "checkLevelProgression db user wordsLearned sessionAccuracy =
     (case user of
        None \<Rightarrow> db
      | Some u \<Rightarrow>
          (case profiles db u of
             None \<Rightarrow> db
           | Some profile \<Rightarrow>
               (let practiceTimeMinutes = total_practice_time profile div 60;
                    q = qualifiedLevel (masteredWords db u) (accuracy_rate profile)
                          (current_streak profile) practiceTimeMinutes
                in if q > level profile
                   then milestone_achievements
                          (insert_achievement
                             (db\<lparr>profiles := (profiles db)(u \<mapsto> profile\<lparr>level := q\<rparr>)\<rparr>)
                             u ''level_up'' (level_up_title q) (level_up_description q)
                             (getLevelIcon q))
                          u q
                   else db)))"

subsection \<open>Session finalization\<close>

datatype session_error = No_user | Insert_rejected pg_error | Accuracy_not_finite

text \<open>
  \<open>endSession\<close>: the session row is inserted first (its \<open>accuracy_rate\<close> column is
  \<open>numeric(5,2)\<close>; a rejected insert is thrown and ends the function), then the four
  updates run in the order of the source, each on the database the one before left.
  The words count passed on is \<open>session.wordsPracticed.length\<close>. The last case stands for
  an accuracy that is not a finite number; \<open>accuracyRate\<close> never yields one.
\<close>

definition endSession ::
  "database \<Rightarrow> uuid option \<Rightarrow> app_settings option \<Rightarrow> int \<Rightarrow> date \<Rightarrow> session
     \<Rightarrow> (session_error + learning_sessions_row) \<times> database" where
  "endSession db user settings now today s =
     (case user of
        None \<Rightarrow> (Inl No_user, db)
      | Some u \<Rightarrow>
          (case accuracyRate s of
             Num rate \<Rightarrow>
               (case numeric_5_2 rate of
                  Inl e \<Rightarrow> (Inl (Insert_rejected e), db)
                | Inr stored \<Rightarrow>
                    (let data = \<lparr>session_user_id = u, session_type = sessionType s,
                                 words_practiced = wordsPracticed s,
                                 correct_pronunciations = correctPronunciations s,
                                 total_attempts = totalAttempts s,
                                 session_duration = sessionDuration now s,
                                 session_accuracy_rate = stored\<rparr>;
                         n = int (length (wordsPracticed s));
                         db0 = db\<lparr>learning_sessions := learning_sessions db @ [data]\<rparr>;
                         db1 = updateUserStats db0 user n (sessionDuration now s) rate;
                         db2 = updateDailyGoals db1 user settings today n
                                 (sessionDuration now s) rate;
                         db3 = updateStreak db2 user settings today n;
                         db4 = checkLevelProgression db3 user n rate
                     in (Inr data, db4)))
           | _ \<Rightarrow> (Inl Accuracy_not_finite, db)))"

subsection \<open>The hook \<open>useLevelProgression\<close>\<close>

text \<open>
  The interface \<open>LevelRequirements\<close>; its field \<open>level\<close> is \<open>lr_level\<close> here. An absent
  \<open>specialRequirements\<close> is \<open>None\<close>.
\<close>

record LevelRequirements =
  lr_level :: int
  minWordsLearned :: int
  minAccuracy :: rat
  minStreakDays :: int
  minPracticeTime :: int
  specialRequirements :: "string list option"

definition LEVEL_REQUIREMENTS :: "LevelRequirements list" where
  "LEVEL_REQUIREMENTS =
     [\<lparr>lr_level = 1, minWordsLearned = 0, minAccuracy = 0, minStreakDays = 0,
       minPracticeTime = 0, specialRequirements = None\<rparr>,
      \<lparr>lr_level = 2, minWordsLearned = 25, minAccuracy = 60, minStreakDays = 3,
       minPracticeTime = 30,
       specialRequirements = Some [''Complete first chat session'', ''Try pronunciation practice'']\<rparr>,
      \<lparr>lr_level = 3, minWordsLearned = 75, minAccuracy = 70, minStreakDays = 7,
       minPracticeTime = 90,
       specialRequirements = Some [''Master 10 easy words'', ''Use app for 7 consecutive days'']\<rparr>,
      \<lparr>lr_level = 4, minWordsLearned = 150, minAccuracy = 75, minStreakDays = 14,
       minPracticeTime = 180,
       specialRequirements = Some [''Master 20 medium words'', ''Achieve 80% accuracy in practice'']\<rparr>,
      \<lparr>lr_level = 5, minWordsLearned = 250, minAccuracy = 80, minStreakDays = 21,
       minPracticeTime = 300,
       specialRequirements = Some [''Master 15 hard words'', ''Complete 50 practice sessions'']\<rparr>,
      \<lparr>lr_level = 6, minWordsLearned = 400, minAccuracy = 85, minStreakDays = 30,
       minPracticeTime = 480,
       specialRequirements = Some [''Master 30 hard words'', ''Maintain 30-day streak'']\<rparr>,
      \<lparr>lr_level = 7, minWordsLearned = 600, minAccuracy = 88, minStreakDays = 45,
       minPracticeTime = 720,
       specialRequirements = Some [''Reading Champion achievement'', ''Help others learn'']\<rparr>,
      \<lparr>lr_level = 8, minWordsLearned = 850, minAccuracy = 90, minStreakDays = 60,
       minPracticeTime = 1000,
       specialRequirements = Some [''Master 100 words total'', ''Pronunciation expert'']\<rparr>,
      \<lparr>lr_level = 9, minWordsLearned = 1200, minAccuracy = 92, minStreakDays = 90,
       minPracticeTime = 1440,
       specialRequirements = Some [''Learning mentor'', ''Advanced difficulty mastery'']\<rparr>,
      \<lparr>lr_level = 10, minWordsLearned = 1500, minAccuracy = 95, minStreakDays = 120,
       minPracticeTime = 2000,
       specialRequirements = Some [''Reading Buddy Master'', ''Perfect pronunciation streak'']\<rparr>]"

definition meetsRequirements_lp :: "int \<Rightarrow> rat \<Rightarrow> int \<Rightarrow> int \<Rightarrow> LevelRequirements \<Rightarrow> bool" where
  "meetsRequirements_lp mw rate strk pt r \<longleftrightarrow>
     mw \<ge> minWordsLearned r \<and> rate \<ge> minAccuracy r \<and> strk \<ge> minStreakDays r
     \<and> pt \<ge> minPracticeTime r"

fun qualifiedLevel_loop_lp ::
  "int \<Rightarrow> rat \<Rightarrow> int \<Rightarrow> int \<Rightarrow> LevelRequirements list \<Rightarrow> int \<Rightarrow> int" where
  "qualifiedLevel_loop_lp mw rate strk pt [] q = q"
| "qualifiedLevel_loop_lp mw rate strk pt (r # rest) q =
     (if meetsRequirements_lp mw rate strk pt r
      then qualifiedLevel_loop_lp mw rate strk pt rest (lr_level r)
      else q)"

definition qualifiedLevel_lp :: "int \<Rightarrow> rat \<Rightarrow> int \<Rightarrow> int \<Rightarrow> int" where
  "qualifiedLevel_lp mw rate strk pt = qualifiedLevel_loop_lp mw rate strk pt LEVEL_REQUIREMENTS 1"




subsection \<open>Call sequences\<close>

text \<open>
  The screens call \<open>addWordToSession\<close> once per attempt on the accumulator that the call
  before returned; an attempt is the word, whether it was correct, and its difficulty.
\<close>

type_synonym attempt = "string \<times> bool \<times> difficulty"

fun record_attempts ::
  "database \<Rightarrow> uuid option \<Rightarrow> session \<Rightarrow> attempt list \<Rightarrow> session \<times> database" where
  "record_attempts db user s [] = (s, db)"
| "record_attempts db user s ((w, c, d) # rest) =
     (case addWordToSession db user s w c d of
        (s', db') \<Rightarrow> record_attempts db' user s' rest)"

text \<open>What the accumulator keeps true.\<close>

definition session_inv :: "session \<Rightarrow> bool" where
  "session_inv s \<longleftrightarrow>
     totalAttempts s = int (length (wordsPracticed s))
     \<and> 0 \<le> correctPronunciations s \<and> correctPronunciations s \<le> totalAttempts s"

text \<open>
  A sequence of calls of \<open>update_word_progress\<close>; a call that raises writes nothing.
\<close>

type_synonym word_call = "uuid \<times> string \<times> difficulty \<times> bool"

fun word_progress_calls :: "database \<Rightarrow> word_call list \<Rightarrow> database" where
  "word_progress_calls db [] = db"
| "word_progress_calls db ((u, w, d, c) # rest) =
     word_progress_calls
       (case update_word_progress db u w d c of Inl e \<Rightarrow> db | Inr db' \<Rightarrow> db') rest"

definition counts_ok :: "uuid \<times> string \<Rightarrow> database \<Rightarrow> bool" where
  "counts_ok k db \<longleftrightarrow>
     (\<forall>row. (k, row) \<in> set (word_progress db) \<longrightarrow> times_correct row \<le> times_practiced row)"

text \<open>
  The four thresholds and the level of a \<open>LEVEL_REQUIREMENTS\<close> entry, as an entry of the
  local array of \<open>useLearningSession\<close>; used to compare the two ladders.
\<close>

definition thresholds :: "LevelRequirements \<Rightarrow> requirement" where
  "thresholds r =
     \<lparr>req_level = lr_level r, words = minWordsLearned r, accuracy = minAccuracy r,
      streak = minStreakDays r, time = minPracticeTime r\<rparr>"



subsection \<open>Sample inputs\<close>

text \<open>A database just after one user registered, without the rows of other tables.\<close>

definition new_user_db :: database where
  "new_user_db =
     \<lparr>profiles = [''u1'' \<mapsto> \<lparr>level = 1, total_words_learned = 0, total_practice_time = 0,
                               accuracy_rate = 0, current_streak = 0, longest_streak = 0\<rparr>],
      word_progress = [], achievements = [], daily_goals = Map.empty, learning_sessions = []\<rparr>"

definition sample_calls :: "word_call list" where
  "sample_calls =
     [(''u1'', ''cat'', easy, True), (''u1'', ''dog'', easy, False), (''u1'', ''cat'', easy, False)]"





text \<open>
  A day on which the user has 2 of 10 words so far, and a session of four correct
  attempts that lasts a minute.
\<close>

definition goal_day_db :: database where
  "goal_day_db =
     \<lparr>profiles = [''u1'' \<mapsto> \<lparr>level = 1, total_words_learned = 2, total_practice_time = 60,
                               accuracy_rate = 0, current_streak = 0, longest_streak = 0\<rparr>],
      word_progress = [], achievements = [],
      daily_goals =
        [(''u1'', words_goal, ''2025-06-28'') \<mapsto>
           \<lparr>target_value = 10, current_value = 2, completed = False\<rparr>,
         (''u1'', time_goal, ''2025-06-28'') \<mapsto>
           \<lparr>target_value = 30, current_value = 1, completed = False\<rparr>,
         (''u1'', accuracy_goal, ''2025-06-28'') \<mapsto>
           \<lparr>target_value = 80, current_value = 0, completed = False\<rparr>],
      learning_sessions = []\<rparr>"

definition four_words :: session where
  "four_words =
     \<lparr>sessionType = practice, startTime = 0,
      wordsPracticed = [''cat'', ''dog'', ''sun'', ''hat''],
      correctPronunciations = 4, totalAttempts = 4\<rparr>"



section \<open>Properties\<close>

subsection \<open>The session accumulator and its accuracy\<close>



lemma accuracyRate_finite: "\<exists>a. accuracyRate s = Num a"
  by (simp add: accuracyRate_def divide_js_def)

lemma session_inv_start: "session_inv (startSession ty now)"
  by (simp add: session_inv_def startSession_def)

lemma session_inv_add:
  "session_inv s \<Longrightarrow> session_inv (fst (addWordToSession db user s w c d))"
  by (simp add: session_inv_def addWordToSession_def)

lemma session_inv_record:
  "session_inv s \<Longrightarrow> session_inv (fst (record_attempts db user s as))"
proof (induction as arbitrary: db s)
  case Nil
  then show ?case by simp
next
  case (Cons a as)
  obtain w c d where a: "a = (w, c, d)" by (cases a) auto
  obtain s' db' where step: "addWordToSession db user s w c d = (s', db')"
    by (cases "addWordToSession db user s w c d") auto
  have "session_inv s'" using session_inv_add [OF Cons.prems, of db user w c d] step by simp
  then show ?case using Cons.IH [of s' db'] a step by simp
qed

lemma percent_bounds: "0 \<le> (x::rat) \<Longrightarrow> x \<le> 1 \<Longrightarrow> 0 \<le> x * 100 \<and> x * 100 \<le> 100"
  by simp

lemma session_inv_accuracy:
  assumes "session_inv s"
  shows "\<exists>a. accuracyRate s = Num a \<and> 0 \<le> a \<and> a \<le> 100"
proof (cases "totalAttempts s > 0")
  case True
  let ?c = "rat_of_int (correctPronunciations s)" and ?t = "rat_of_int (totalAttempts s)"
  have t: "0 < ?t" using True by simp
  have c: "0 \<le> ?c" "?c \<le> ?t" using assms by (simp_all add: session_inv_def)
  have "0 \<le> ?c / ?t" using c t by simp
  moreover have "?c / ?t \<le> 1" using c t by (simp add: divide_le_eq)
  ultimately have "0 \<le> ?c / ?t * 100 \<and> ?c / ?t * 100 \<le> 100" by (rule percent_bounds)
  moreover have "accuracyRate s = Num (?c / ?t * 100)"
    using True by (simp add: accuracyRate_def divide_js_def)
  ultimately show ?thesis by blast
next
  case False
  then show ?thesis by (simp add: accuracyRate_def)
qed



text \<open>
  C10. Whatever attempts are recorded on a fresh accumulator, \<open>totalAttempts\<close> is the
  length of \<open>wordsPracticed\<close>, \<open>correctPronunciations\<close> does not exceed it, and the
  accuracy that \<open>endSession\<close> computes is a finite number between 0 and 100.
\<close>

theorem session_accumulator_invariant:
  "totalAttempts (fst (record_attempts db user (startSession ty now) as))
     = int (length (wordsPracticed (fst (record_attempts db user (startSession ty now) as))))
   \<and> correctPronunciations (fst (record_attempts db user (startSession ty now) as))
       \<le> totalAttempts (fst (record_attempts db user (startSession ty now) as))
   \<and> (\<exists>a. accuracyRate (fst (record_attempts db user (startSession ty now) as)) = Num a
          \<and> 0 \<le> a \<and> a \<le> 100)"
proof -
  have inv: "session_inv (fst (record_attempts db user (startSession ty now) as))"
    by (rule session_inv_record [OF session_inv_start])
  show ?thesis using inv session_inv_accuracy [OF inv] by (simp add: session_inv_def)
qed

subsection \<open>Word progress\<close>

lemma on_conflict_update_counts:
  "on_conflict_update c row = Inr row' \<Longrightarrow> times_correct row \<le> times_practiced row
     \<Longrightarrow> times_correct row' \<le> times_practiced row'"
  by (auto simp add: on_conflict_update_def Let_def split: if_splits sum.splits)

lemma update_word_progress_counts:
  assumes ok: "counts_ok k db" and step: "update_word_progress db u w d c = Inr db'"
  shows "counts_ok k db'"
proof (cases "map_of (word_progress db) (u, w)")
  case None
  then have "word_progress db' = word_progress db @
      [((u, w), \<lparr>difficulty = d, times_practiced = 1,
                 times_correct = (if c then 1 else 0), mastery_level = 0\<rparr>)]"
    using step by (auto simp add: update_word_progress_def)
  then show ?thesis using ok by (auto simp add: counts_ok_def)
next
  case (Some row)
  then obtain row' where r': "on_conflict_update c row = Inr row'"
    and tbl: "word_progress db' =
      map (\<lambda>(k, r). if k = (u, w) then (k, row') else (k, r)) (word_progress db)"
    using step by (auto simp add: update_word_progress_def split: sum.splits)
  have mem: "((u, w), row) \<in> set (word_progress db)" using Some by (rule map_of_SomeD)
  show ?thesis
  proof (cases "k = (u, w)")
    case True
    then have "times_correct row \<le> times_practiced row" using ok mem by (simp add: counts_ok_def)
    then have "times_correct row' \<le> times_practiced row'"
      using on_conflict_update_counts [OF r'] by simp
    then show ?thesis using True tbl by (auto simp add: counts_ok_def split: if_splits)
  next
    case False
    then show ?thesis using ok tbl by (auto simp add: counts_ok_def split: if_splits)
  qed
qed

lemma word_progress_calls_counts:
  "counts_ok k db \<Longrightarrow> counts_ok k (word_progress_calls db calls)"
proof (induction calls arbitrary: db)
  case Nil
  then show ?case by simp
next
  case (Cons call calls)
  obtain u w d c where call: "call = (u, w, d, c)" by (cases call) auto
  have "counts_ok k (case update_word_progress db u w d c of Inl e \<Rightarrow> db | Inr db' \<Rightarrow> db')"
    using Cons.prems update_word_progress_counts [of k db u w d c]
    by (cases "update_word_progress db u w d c") auto
  then show ?case using Cons.IH call by simp
qed

lemma no_record_counts_ok: "map_of (word_progress db) k = None \<Longrightarrow> counts_ok k db"
  by (auto simp add: counts_ok_def map_of_eq_None_iff image_iff)

lemma sample_calls_result:
  "word_progress (word_progress_calls new_user_db sample_calls)
   = [((''u1'', ''cat''),
       \<lparr>difficulty = easy, times_practiced = 2, times_correct = 1, mastery_level = 50\<rparr>),
      ((''u1'', ''dog''),
       \<lparr>difficulty = easy, times_practiced = 1, times_correct = 0, mastery_level = 0\<rparr>)]"
  by (simp add: sample_calls_def new_user_db_def update_word_progress_def
        on_conflict_update_def mastery_case_def int4_ok_def)

text \<open>
  C7. Take a user and a word with no record yet, and any sequence of calls of
  \<open>update_word_progress\<close> (for these or other users and words). After each call, that is
  after every prefix of the sequence, a record of the user and word has
  \<open>times_correct \<le> times_practiced\<close>.
\<close>

theorem times_correct_le_times_practiced:
  assumes "map_of (word_progress db) (u, w) = None"
  shows "\<forall>n\<le>length calls. \<forall>row.
           ((u, w), row) \<in> set (word_progress (word_progress_calls db (take n calls)))
             \<longrightarrow> times_correct row \<le> times_practiced row"
  using word_progress_calls_counts [OF no_record_counts_ok [OF assms]]
  by (simp add: counts_ok_def)

theorem times_correct_le_times_practiced_witness:
  "map_of (word_progress new_user_db) (''u1'', ''cat'') = None
   \<and> ((''u1'', ''cat''),
        \<lparr>difficulty = easy, times_practiced = 2, times_correct = 1, mastery_level = 50\<rparr>)
       \<in> set (word_progress (word_progress_calls new_user_db (take 3 sample_calls)))
   \<and> times_correct
         \<lparr>difficulty = easy, times_practiced = 2, times_correct = 1, mastery_level = 50\<rparr>
       \<le> times_practiced
         \<lparr>difficulty = easy, times_practiced = 2, times_correct = 1, mastery_level = 50\<rparr>"
proof -
  have none: "map_of (word_progress new_user_db) (''u1'', ''cat'') = None"
    by (simp add: new_user_db_def)
  have len: "(3::nat) \<le> length sample_calls" by (simp add: sample_calls_def)
  have whole: "take 3 sample_calls = sample_calls" by (simp add: sample_calls_def)
  have mem: "((''u1'', ''cat''),
        \<lparr>difficulty = easy, times_practiced = 2, times_correct = 1, mastery_level = 50\<rparr>)
       \<in> set (word_progress (word_progress_calls new_user_db (take 3 sample_calls)))"
    by (simp add: whole sample_calls_result)
  show ?thesis
    using none mem times_correct_le_times_practiced [OF none, of sample_calls] len by blast
qed

text \<open>
  On the conflict path the stored tier is the one the \<open>CASE\<close> derives from the counts
  after the increment.
\<close>

lemma on_conflict_update_tier:
  "on_conflict_update c row = Inr row'
     \<Longrightarrow> mastery_case (times_correct row') (times_practiced row') = Inr (mastery_level row')"
  by (auto simp add: on_conflict_update_def Let_def split: if_splits sum.splits)

text \<open>
  C3. Specified: after every call of \<open>update_word_progress\<close>, the first one for a user
  and word included, the stored \<open>mastery_level\<close> is the tier of the counts after the
  increment, so 50 after a single correct first attempt. Observed: the first call takes
  the \<open>INSERT\<close> branch, which names no \<open>mastery_level\<close>; the row is stored with the
  column default 0, while the \<open>CASE\<close> on the same counts (1 of 1) gives 50.
\<close>

theorem first_attempt_mastery_level:
  "update_word_progress new_user_db ''u1'' ''cat'' easy True
     = Inr (new_user_db\<lparr>word_progress :=
              [((''u1'', ''cat''),
                \<lparr>difficulty = easy, times_practiced = 1, times_correct = 1, mastery_level = 0\<rparr>)]\<rparr>)
   \<and> mastery_case 1 1 = Inr 50"
  by (simp add: new_user_db_def update_word_progress_def mastery_case_def)

subsection \<open>Aggregate stats\<close>






subsection \<open>Daily goals\<close>

lemma daily_goals_update_goal:
  "daily_goals (update_goal db k v c) k' =
     (if k' = k
      then map_option (\<lambda>row. row\<lparr>current_value := v, completed := c\<rparr>) (daily_goals db k)
      else daily_goals db k')"
  by (simp add: update_goal_def split: option.splits)

text \<open>The tracker touches today's rows of the user and no other row of the table.\<close>

lemma updateDailyGoals_frame:
  "u' \<noteq> u \<or> d \<noteq> today \<Longrightarrow>
   daily_goals (updateDailyGoals db (Some u) settings today wl pt acc) (u', t, d)
     = daily_goals db (u', t, d)"
  by (cases "daily_goals db (u, words_goal, today)";
      cases "daily_goals db (u, time_goal, today)";
      cases "daily_goals db (u, accuracy_goal, today)")
     (auto simp add: updateDailyGoals_def Let_def daily_goals_update_goal)

text \<open>With no row for today, it creates one of each type.\<close>

lemma updateDailyGoals_created:
  assumes "\<forall>t. daily_goals db (u, t, today) = None"
  shows "daily_goals (updateDailyGoals db (Some u) settings today wl pt acc) (u, t, today)
           \<noteq> None"
  using assms by (cases t) (auto simp add: updateDailyGoals_def Let_def)

lemma new_user_first_goals:
  "daily_goals (updateDailyGoals new_user_db (Some ''u1'') None ''2025-06-28'' 3 125 75)
     (''u1'', words_goal, ''2025-06-28'')
   = Some \<lparr>target_value = 10, current_value = 3, completed = False\<rparr>"
  by (simp add: new_user_db_def updateDailyGoals_def Let_def word_goal_or_10_def)

text \<open>
  C6. After \<open>updateDailyGoals\<close> has run for a user, every row of today's goals of that user,
  of any of the three types, whether the run updated it or created it, has
  \<open>completed = (current_value \<ge> target_value)\<close>. (The run updates each row it found and
  creates all three when it found none, so today's rows are exactly the ones it wrote.)
\<close>

theorem daily_goal_completed_flag:
  assumes "daily_goals (updateDailyGoals db (Some u) settings today wl pt acc) (u, t, today)
             = Some g"
  shows "completed g = (current_value g \<ge> target_value g)"
  using assms
  by (cases t; cases "daily_goals db (u, words_goal, today)";
      cases "daily_goals db (u, time_goal, today)";
      cases "daily_goals db (u, accuracy_goal, today)")
     (auto simp add: updateDailyGoals_def Let_def daily_goals_update_goal)

theorem daily_goal_completed_flag_witness:
  "daily_goals (updateDailyGoals new_user_db (Some ''u1'') None ''2025-06-28'' 3 125 75)
     (''u1'', words_goal, ''2025-06-28'')
   = Some \<lparr>target_value = 10, current_value = 3, completed = False\<rparr>
   \<and> completed \<lparr>target_value = 10, current_value = 3, completed = False\<rparr>
       = (current_value \<lparr>target_value = 10, current_value = 3, completed = False\<rparr>
            \<ge> target_value \<lparr>target_value = 10, current_value = 3, completed = False\<rparr>)"
  using daily_goal_completed_flag [OF new_user_first_goals] new_user_first_goals by blast

subsection \<open>The ladder walk\<close>

lemma ladders_equal: "map thresholds LEVEL_REQUIREMENTS = levelRequirements"
  by (simp add: LEVEL_REQUIREMENTS_def levelRequirements_def thresholds_def)

lemma meetsRequirements_lp_thresholds:
  "meetsRequirements_lp mw rate strk pt r = meetsRequirements mw rate strk pt (thresholds r)"
  by (simp add: meetsRequirements_lp_def meetsRequirements_def thresholds_def)

lemma qualifiedLevel_loop_lp_thresholds:
  "qualifiedLevel_loop_lp mw rate strk pt rs q
     = qualifiedLevel_loop mw rate strk pt (map thresholds rs) q"
  by (induction rs arbitrary: q)
     (simp_all add: meetsRequirements_lp_thresholds, simp add: thresholds_def)

lemma qualifiedLevel_lp_eq: "qualifiedLevel_lp mw rate strk pt = qualifiedLevel mw rate strk pt"
  by (simp add: qualifiedLevel_lp_def qualifiedLevel_def qualifiedLevel_loop_lp_thresholds
        ladders_equal)



lemma length_levelRequirements: "length levelRequirements = 10"
  by (simp add: levelRequirements_def)




text \<open>
  A tuple with a negative component does not meet level 1; the walk stops at once and
  returns the value \<open>qualifiedLevel\<close> was initialised with.
\<close>

lemma qualifiedLevel_initial:
  "\<not> meetsRequirements mw rate strk pt (levelRequirements ! 0)
     \<Longrightarrow> qualifiedLevel mw rate strk pt = 1"
  by (simp add: qualifiedLevel_def levelRequirements_def)





text \<open>
  C9. The two ladders have ten entries each and agree entry by entry on the level and the
  four thresholds; the two loops are the same function of the ladder, the metrics and the
  starting level; and so the two hooks compute the same qualified level for every tuple
  of metrics.
\<close>

theorem level_ladders_agree:
  "length LEVEL_REQUIREMENTS = 10 \<and> length levelRequirements = 10
   \<and> map (\<lambda>r. (lr_level r, minWordsLearned r, minAccuracy r, minStreakDays r, minPracticeTime r))
        LEVEL_REQUIREMENTS
     = map (\<lambda>r. (req_level r, words r, accuracy r, streak r, time r)) levelRequirements
   \<and> (\<forall>mw rate strk pt rs q.
         qualifiedLevel_loop_lp mw rate strk pt rs q
           = qualifiedLevel_loop mw rate strk pt (map thresholds rs) q)
   \<and> (\<forall>mw rate strk pt. qualifiedLevel_lp mw rate strk pt = qualifiedLevel mw rate strk pt)"
proof -
  have "length LEVEL_REQUIREMENTS = 10" by (simp add: LEVEL_REQUIREMENTS_def)
  moreover have "map (\<lambda>r. (lr_level r, minWordsLearned r, minAccuracy r, minStreakDays r, minPracticeTime r))
        LEVEL_REQUIREMENTS
     = map (\<lambda>r. (req_level r, words r, accuracy r, streak r, time r)) levelRequirements"
    by (simp add: LEVEL_REQUIREMENTS_def levelRequirements_def)
  ultimately show ?thesis
    using length_levelRequirements qualifiedLevel_loop_lp_thresholds qualifiedLevel_lp_eq
    by simp
qed




subsection \<open>Level-up\<close>







lemma level_up_title_3: "level_up_title 3 = ''Level 3 Reached!''"
  by (simp add: level_up_title_def toString_def)



subsection \<open>Streak\<close>

lemma floor_rat_numeral:
  "\<lfloor>numeral a / numeral b :: rat\<rfloor> = numeral a div numeral b"
  by (metis floor_divide_of_int_eq of_int_numeral)

lemma goal_day_result:
  "snd (endSession goal_day_db (Some ''u1'') (Some \<lparr>daily_word_goal = 10\<rparr>) 60000 ''2025-06-28''
          four_words)
   = goal_day_db
       \<lparr>profiles := [''u1'' \<mapsto> \<lparr>level = 1, total_words_learned = 6, total_practice_time = 120,
                               accuracy_rate = 50, current_streak = 1, longest_streak = 1\<rparr>],
        daily_goals :=
        [(''u1'', words_goal, ''2025-06-28'') \<mapsto>
           \<lparr>target_value = 10, current_value = 6, completed = False\<rparr>,
         (''u1'', time_goal, ''2025-06-28'') \<mapsto>
           \<lparr>target_value = 30, current_value = 2, completed = False\<rparr>,
         (''u1'', accuracy_goal, ''2025-06-28'') \<mapsto>
           \<lparr>target_value = 80, current_value = 100, completed = True\<rparr>],
        learning_sessions :=
          [\<lparr>session_user_id = ''u1'', session_type = practice,
            words_practiced = [''cat'', ''dog'', ''sun'', ''hat''],
            correct_pronunciations = 4, total_attempts = 4, session_duration = 60,
            session_accuracy_rate = 100\<rparr>]\<rparr>"
  by (simp add: endSession_def goal_day_db_def four_words_def accuracyRate_def divide_js_def
        numeric_5_2_def round_half_away_def sessionDuration_def Let_def
        updateUserStats_def update_user_stats_def int4_ok_def
        updateDailyGoals_def update_goal_def updateStreak_def or_default_def
        checkLevelProgression_def masteredWords_def qualifiedLevel_def levelRequirements_def
        meetsRequirements_def floor_rat_numeral)



text \<open>
  What the sequence of \<open>endSession\<close> does to the streak when today's words goal exists:
  the goal is updated first, \<open>updateStreak\<close> then adds the session's words to the stored
  value once more, so the streak advances exactly when the value before the session plus
  twice the session's words reaches the configured goal.
\<close>

lemma updateDailyGoals_profiles:
  "profiles (updateDailyGoals db user settings today wl pt acc) = profiles db"
  by (cases user; cases "daily_goals db (the user, words_goal, today)";
      cases "daily_goals db (the user, time_goal, today)";
      cases "daily_goals db (the user, accuracy_goal, today)")
     (simp_all add: updateDailyGoals_def Let_def update_goal_def)

lemma updateDailyGoals_words:
  assumes "daily_goals db (u, words_goal, today) = Some g"
  shows "daily_goals (updateDailyGoals db (Some u) settings today wl pt acc)
           (u, words_goal, today)
     = Some (g\<lparr>current_value := current_value g + wl,
               completed := (current_value g + wl \<ge> target_value g)\<rparr>)"
  using assms
  by (cases "daily_goals db (u, time_goal, today)";
      cases "daily_goals db (u, accuracy_goal, today)")
     (simp_all add: updateDailyGoals_def Let_def daily_goals_update_goal)

lemma streak_counts_session_twice:
  assumes goal: "daily_goals db (u, words_goal, today) = Some g"
    and prof: "profiles db u = Some p"
  shows "map_option current_streak
           (profiles
              (updateStreak (updateDailyGoals db (Some u) (Some st) today wl pt acc)
                 (Some u) (Some st) today wl) u)
         = Some (if current_value g + wl + wl \<ge> or_default (daily_word_goal st) 10
                 then current_streak p + 1 else current_streak p)"
  using prof
  by (simp add: updateStreak_def Let_def updateDailyGoals_words [OF goal]
        updateDailyGoals_profiles or_default_def)

text \<open>
  C4. Specified: session finalization advances the streak by one, and sets
  \<open>longest_streak\<close> to the larger of the two, exactly when today's words goal, with the
  session's words in it, has reached the daily target. Observed: on a day with 2 of 10
  words, a session of 4 words leaves the goal at 6 of 10, not completed, and yet
  \<open>current_streak\<close> goes from 0 to 1, since 6 + 4 reaches 10.
\<close>

theorem streak_advances_below_target:
  "daily_goals
     (snd (endSession goal_day_db (Some ''u1'') (Some \<lparr>daily_word_goal = 10\<rparr>) 60000
             ''2025-06-28'' four_words))
     (''u1'', words_goal, ''2025-06-28'')
   = Some \<lparr>target_value = 10, current_value = 6, completed = False\<rparr>
   \<and> map_option current_streak (profiles goal_day_db ''u1'') = Some 0
   \<and> map_option current_streak
       (profiles
          (snd (endSession goal_day_db (Some ''u1'') (Some \<lparr>daily_word_goal = 10\<rparr>) 60000
                  ''2025-06-28'' four_words))
          ''u1'') = Some 1"
  unfolding goal_day_result by (simp add: goal_day_db_def)

end
